theory Spec2Isabelle
  imports Main
begin

section \<open>Open digraphs (modules/open\_digraph.py)\<close>

text \<open>
  The Python module keeps a graph as a dictionary from ids to \<open>Node\<close> objects; every
  node holds two dictionaries (parents and children) from a neighbour id to a multiplicity.
  Nodes and dictionaries are mutable objects that several owners may reference, so they
  live in an explicit store and are named by their addresses. Dictionaries are association
  lists in insertion order, as Python iterates them.
\<close>

subsection \<open>Errors\<close>

datatype error = KeyError | ValueError string | RuntimeError | IndexError

definition bind :: "error + 'a \<Rightarrow> ('a \<Rightarrow> error + 'b) \<Rightarrow> error + 'b" where
  "bind m f = (case m of Inl e \<Rightarrow> Inl e | Inr x \<Rightarrow> f x)"

subsection \<open>Python dictionaries\<close>

type_synonym ('k, 'v) dict = "('k \<times> 'v) list"

definition dict_keys :: "('k, 'v) dict \<Rightarrow> 'k list" where
  "dict_keys d = map fst d"

definition dict_values :: "('k, 'v) dict \<Rightarrow> 'v list" where
  "dict_values d = map snd d"

definition dict_in :: "'k \<Rightarrow> ('k, 'v) dict \<Rightarrow> bool" where
  "dict_in k d = (k \<in> set (dict_keys d))"

definition dict_get :: "('k, 'v) dict \<Rightarrow> 'k \<Rightarrow> error + 'v" where
  "dict_get d k = (case map_of d k of None \<Rightarrow> Inl KeyError | Some v \<Rightarrow> Inr v)"

text \<open>\<open>d[k] = v\<close>: an existing key keeps its position, a new key goes to the end.\<close>

fun dict_set :: "('k, 'v) dict \<Rightarrow> 'k \<Rightarrow> 'v \<Rightarrow> ('k, 'v) dict" where
  "dict_set [] k v = [(k, v)]"
| "dict_set (p # ps) k v = (if fst p = k then (k, v) # ps else p # dict_set ps k v)"

definition dict_del :: "('k, 'v) dict \<Rightarrow> 'k \<Rightarrow> ('k, 'v) dict" where
  "dict_del d k = filter (\<lambda>p. fst p \<noteq> k) d"

subsection \<open>Loops\<close>

text \<open>A \<open>for\<close> loop over a list; an exception in the body leaves the loop.\<close>

fun for_each :: "'a list \<Rightarrow> ('a \<Rightarrow> 's \<Rightarrow> error + 's) \<Rightarrow> 's \<Rightarrow> error + 's" where
  "for_each [] body s = Inr s"
| "for_each (x # xs) body s =
     (case body x s of Inl e \<Rightarrow> Inl e | Inr s' \<Rightarrow> for_each xs body s')"

text \<open>A list comprehension whose element expression may raise.\<close>

fun map_err :: "('a \<Rightarrow> error + 'b) \<Rightarrow> 'a list \<Rightarrow> error + 'b list" where
  "map_err f [] = Inr []"
| "map_err f (x # xs) =
     (case f x of Inl e \<Rightarrow> Inl e
      | Inr y \<Rightarrow> (case map_err f xs of Inl e \<Rightarrow> Inl e | Inr ys \<Rightarrow> Inr (y # ys)))"

subsection \<open>The store, nodes and graphs\<close>

text \<open>
  A \<open>Node\<close> object: its id, its label and the addresses of its two dictionaries.
  Labels are Python strings, kept as their UTF-8 bytes.
\<close>

record node =
  nid :: int
  label :: string
  parents :: nat
  children :: nat

record heap =
  dicts :: "(int, int) dict list"
  nodeobjs :: "node list"

text \<open>
  An \<open>OpenDigraph\<close>: the input and output id lists and the dictionary \<open>self.nodes\<close>
  from an id to (the address of) its \<open>Node\<close> object.
\<close>

record graph =
  inputs :: "int list"
  outputs :: "int list"
  nodes :: "(int, nat) dict"

definition get_input_ids :: "graph \<Rightarrow> int list" where
  "get_input_ids g = inputs g"

definition get_output_ids :: "graph \<Rightarrow> int list" where
  "get_output_ids g = outputs g"

definition get_node_ids :: "graph \<Rightarrow> int list" where
  "get_node_ids g = dict_keys (nodes g)"

definition get_nodes :: "graph \<Rightarrow> nat list" where
  "get_nodes g = dict_values (nodes g)"

text \<open>\<open>self.nodes[node_id]\<close>: a missing key raises \<open>KeyError\<close>.\<close>

definition get_node_by_id :: "graph \<Rightarrow> int \<Rightarrow> error + nat" where
  "get_node_by_id g node_id = dict_get (nodes g) node_id"

text \<open>\<open>[self.nodes[node_id] for node_id in ids if node_id in self.nodes]\<close>\<close>

definition get_nodes_by_ids :: "graph \<Rightarrow> int list \<Rightarrow> error + nat list" where
  "get_nodes_by_ids g ids =
     map_err (get_node_by_id g) (filter (\<lambda>node_id. dict_in node_id (nodes g)) ids)"

text \<open>\<open>max(used_ids) + 1 if used_ids else 0\<close>, over the set of all ids in use.\<close>

definition new_id :: "graph \<Rightarrow> int" where
  "new_id g =
     (let used_ids = set (get_input_ids g @ get_output_ids g @ get_node_ids g)
      in if used_ids \<noteq> {} then Max used_ids + 1 else 0)"

definition dict_not_in :: "'k \<Rightarrow> ('k, 'v) dict \<Rightarrow> bool" where
  "dict_not_in k d = (k \<notin> set (dict_keys d))"

subsection \<open>Objects in the store\<close>

definition dict_at :: "heap \<Rightarrow> nat \<Rightarrow> (int, int) dict" where
  "dict_at h a = dicts h ! a"

definition node_at :: "heap \<Rightarrow> nat \<Rightarrow> node" where
  "node_at h r = nodeobjs h ! r"

definition put_dict :: "nat \<Rightarrow> (int, int) dict \<Rightarrow> heap \<Rightarrow> heap" where
  "put_dict a d h = h\<lparr>dicts := (dicts h)[a := d]\<rparr>"

definition put_node :: "nat \<Rightarrow> node \<Rightarrow> heap \<Rightarrow> heap" where
  "put_node r n h = h\<lparr>nodeobjs := (nodeobjs h)[r := n]\<rparr>"

text \<open>A dictionary display \<open>{...}\<close> and a call \<open>Node(...)\<close> allocate a new object.\<close>

definition new_dict :: "(int, int) dict \<Rightarrow> heap \<Rightarrow> nat \<times> heap" where
  "new_dict d h = (length (dicts h), h\<lparr>dicts := dicts h @ [d]\<rparr>)"

definition new_node :: "node \<Rightarrow> heap \<Rightarrow> nat \<times> heap" where
  "new_node n h = (length (nodeobjs h), h\<lparr>nodeobjs := nodeobjs h @ [n]\<rparr>)"

text \<open>
  \<open>for k in d: body\<close> over the dictionary object at address \<open>a\<close>, whose body may change
  the store. Python's iterator raises \<open>RuntimeError\<close> when it is asked for the next key
  and the dictionary's size is no longer the one it started with. The bodies in this module
  either only insert or only delete, so an unchanged size means unchanged keys.
\<close>

fun dict_iter :: "nat \<Rightarrow> nat \<Rightarrow> int list \<Rightarrow> (int \<Rightarrow> heap \<Rightarrow> error + heap) \<Rightarrow> heap
    \<Rightarrow> error + heap" where
  "dict_iter a n [] body h =
     (if length (dict_at h a) \<noteq> n then Inl RuntimeError else Inr h)"
| "dict_iter a n (k # ks) body h =
     (if length (dict_at h a) \<noteq> n then Inl RuntimeError
      else (case body k h of Inl e \<Rightarrow> Inl e | Inr h' \<Rightarrow> dict_iter a n ks body h'))"

definition for_keys :: "nat \<Rightarrow> (int \<Rightarrow> heap \<Rightarrow> error + heap) \<Rightarrow> heap \<Rightarrow> error + heap" where
  "for_keys a body h = dict_iter a (length (dict_at h a)) (dict_keys (dict_at h a)) body h"

subsection \<open>class Node\<close>

definition get_id :: "heap \<Rightarrow> nat \<Rightarrow> int" where
  "get_id h self = nid (node_at h self)"

definition get_label :: "heap \<Rightarrow> nat \<Rightarrow> string" where
  "get_label h self = label (node_at h self)"

text \<open>\<open>get_parents\<close> and \<open>get_children\<close> return the dictionary object itself.\<close>

definition get_parents :: "heap \<Rightarrow> nat \<Rightarrow> nat" where
  "get_parents h self = parents (node_at h self)"

definition get_children :: "heap \<Rightarrow> nat \<Rightarrow> nat" where
  "get_children h self = children (node_at h self)"

definition set_label :: "nat \<Rightarrow> string \<Rightarrow> heap \<Rightarrow> heap" where
  "set_label self new_label h = put_node self ((node_at h self)\<lparr>label := new_label\<rparr>) h"

definition add_parent_id :: "nat \<Rightarrow> int \<Rightarrow> heap \<Rightarrow> heap" where
  "add_parent_id self parent_id h =
     (let a = get_parents h self; d = dict_at h a
      in case map_of d parent_id of
           Some m \<Rightarrow> put_dict a (dict_set d parent_id (m + 1)) h
         | None \<Rightarrow> put_dict a (dict_set d parent_id 1) h)"

definition add_child_id :: "nat \<Rightarrow> int \<Rightarrow> heap \<Rightarrow> heap" where
  "add_child_id self child_id h =
     (let a = get_children h self; d = dict_at h a
      in case map_of d child_id of
           Some m \<Rightarrow> put_dict a (dict_set d child_id (m + 1)) h
         | None \<Rightarrow> put_dict a (dict_set d child_id 1) h)"

text \<open>Python compares dictionaries by content, whatever the insertion order.\<close>

definition dict_eq :: "(int, int) dict \<Rightarrow> (int, int) dict \<Rightarrow> bool" where
  "dict_eq d1 d2 =
     (length d1 = length d2 \<and> list_all (\<lambda>p. map_of d2 (fst p) = Some (snd p)) d1)"

definition node_eq :: "heap \<Rightarrow> nat \<Rightarrow> nat \<Rightarrow> bool" where
  "node_eq h self other =
     (get_id h self = get_id h other \<and> get_label h self = get_label h other \<and>
      dict_eq (dict_at h (get_parents h self)) (dict_at h (get_parents h other)) \<and>
      dict_eq (dict_at h (get_children h self)) (dict_at h (get_children h other)))"

text \<open>\<open>Node.copy\<close> passes the two dictionary objects on to the new node.\<close>

definition node_copy :: "nat \<Rightarrow> heap \<Rightarrow> nat \<times> heap" where
  "node_copy self h =
     new_node \<lparr>nid = get_id h self, label = get_label h self,
               parents = get_parents h self, children = get_children h self\<rparr> h"

definition remove_parent_once :: "nat \<Rightarrow> int \<Rightarrow> heap \<Rightarrow> heap" where
  "remove_parent_once self identity h =
     (let a = get_parents h self; d = dict_at h a
      in case map_of d identity of
           None \<Rightarrow> h
         | Some m \<Rightarrow> if m \<le> 1 then put_dict a (dict_del d identity) h
                     else put_dict a (dict_set d identity (m - 1)) h)"

definition remove_child_once :: "nat \<Rightarrow> int \<Rightarrow> heap \<Rightarrow> heap" where
  "remove_child_once self identity h =
     (let a = get_children h self; d = dict_at h a
      in case map_of d identity of
           None \<Rightarrow> h
         | Some m \<Rightarrow> if m \<le> 1 then put_dict a (dict_del d identity) h
                     else put_dict a (dict_set d identity (m - 1)) h)"

definition remove_parent_id :: "nat \<Rightarrow> int \<Rightarrow> heap \<Rightarrow> heap" where
  "remove_parent_id self identity h =
     (let a = get_parents h self; d = dict_at h a
      in if dict_in identity d then put_dict a (dict_del d identity) h else h)"

definition remove_child_id :: "nat \<Rightarrow> int \<Rightarrow> heap \<Rightarrow> heap" where
  "remove_child_id self identity h =
     (let a = get_children h self; d = dict_at h a
      in if dict_in identity d then put_dict a (dict_del d identity) h else h)"

definition indegree :: "heap \<Rightarrow> nat \<Rightarrow> nat" where
  "indegree h self = length (dict_at h (get_parents h self))"

definition outdegree :: "heap \<Rightarrow> nat \<Rightarrow> nat" where
  "outdegree h self = length (dict_at h (get_children h self))"

subsection \<open>class OpenDigraph: construction, equality, copy\<close>

text \<open>
  The constructor: \<open>self.nodes = {node.id: node for node in nodes}\<close>; an absent
  argument gives an empty list or dictionary.
\<close>

definition open_digraph_init :: "int list option \<Rightarrow> int list option \<Rightarrow> nat list option \<Rightarrow> heap
    \<Rightarrow> graph" where
  "open_digraph_init ins outs ns h =
     \<lparr>inputs = (case ins of None \<Rightarrow> [] | Some l \<Rightarrow> l),
      outputs = (case outs of None \<Rightarrow> [] | Some l \<Rightarrow> l),
      nodes = (case ns of None \<Rightarrow> []
               | Some l \<Rightarrow> fold (\<lambda>n d. dict_set d (get_id h n) n) l [])\<rparr>"

text \<open>
  \<open>__eq__\<close>: the two id lists and the two lists of node objects are compared, the
  nodes with \<open>Node.__eq__\<close>.
\<close>

definition graph_eq :: "heap \<Rightarrow> graph \<Rightarrow> graph \<Rightarrow> bool" where
  "graph_eq h self other =
     (get_input_ids self = get_input_ids other \<and> get_output_ids self = get_output_ids other \<and>
      list_all2 (node_eq h) (get_nodes self) (get_nodes other))"

text \<open>
  \<open>copy\<close>: new id lists and a new node dictionary, holding the node objects
  of \<open>self\<close> (\<open>Node.copy\<close> is not called).
\<close>

definition copy :: "graph \<Rightarrow> heap \<Rightarrow> error + graph" where
  "copy g h =
     bind (get_nodes_by_ids g (get_node_ids g)) (\<lambda>ns.
       Inr (open_digraph_init (Some (get_input_ids g)) (Some (get_output_ids g)) (Some ns) h))"

subsection \<open>class OpenDigraph: edges and nodes\<close>

definition add_edge :: "graph \<Rightarrow> int \<Rightarrow> int \<Rightarrow> heap \<Rightarrow> error + heap" where
  "add_edge g src tgt h =
     (let node_ids = get_node_ids g
      in if src \<in> set node_ids \<and> tgt \<in> set node_ids then
           bind (get_node_by_id g src) (\<lambda>s.
           bind (get_node_by_id g tgt) (\<lambda>t.
             Inr (add_parent_id t src (add_child_id s tgt h))))
         else Inl (ValueError ''src or tgt doesn't exist''))"

text \<open>
  \<open>remove_edge\<close>, as the source has it: \<open>remove_child_once(src)\<close> is called on
  the node \<open>tgt\<close> and \<open>remove_parent_once(tgt)\<close> on the node \<open>src\<close>.
\<close>

definition remove_edge :: "graph \<Rightarrow> int \<Rightarrow> int \<Rightarrow> heap \<Rightarrow> error + heap" where
  "remove_edge g src tgt h =
     (let node_ids = get_node_ids g
      in if src \<in> set node_ids \<and> tgt \<in> set node_ids then
           bind (get_node_by_id g tgt) (\<lambda>t.
           bind (get_node_by_id g src) (\<lambda>s.
             Inr (remove_parent_once s tgt (remove_child_once t src h))))
         else Inl (ValueError ''src or tgt doesn't exist''))"

definition remove_parallel_edges :: "graph \<Rightarrow> int \<Rightarrow> int \<Rightarrow> heap \<Rightarrow> error + heap" where
  "remove_parallel_edges g src tgt h =
     (let node_ids = get_node_ids g
      in if src \<in> set node_ids \<and> tgt \<in> set node_ids then
           bind (get_node_by_id g tgt) (\<lambda>t.
           bind (get_node_by_id g src) (\<lambda>s.
             Inr (remove_child_id s tgt (remove_parent_id t src h))))
         else Inl (ValueError ''src or tgt doesn't exist''))"

definition add_node :: "graph \<Rightarrow> string \<Rightarrow> int list option \<Rightarrow> int list option \<Rightarrow> heap
    \<Rightarrow> error + (int \<times> graph \<times> heap)" where
  "add_node g lbl ps cs h =
     (let node_ids = get_node_ids g;
          (pa, h1) = new_dict [] h;
          (ca, h2) = new_dict [] h1;
          (n, h3) = new_node \<lparr>nid = new_id g, label = lbl, parents = pa, children = ca\<rparr> h2
      in bind (case ps of None \<Rightarrow> Inr h3
               | Some pl \<Rightarrow> for_each pl (\<lambda>parent h'.
                   if parent \<in> set node_ids then Inr (add_parent_id n parent h')
                   else Inl (ValueError ''One parent doesn't exist'')) h3) (\<lambda>h4.
         bind (case cs of None \<Rightarrow> Inr h4
               | Some cl \<Rightarrow> for_each cl (\<lambda>child h'.
                   if child \<in> set node_ids then Inr (add_child_id n child h')
                   else Inl (ValueError ''One child doesn't exist'')) h4) (\<lambda>h5.
           Inr (get_id h5 n, g\<lparr>nodes := dict_set (nodes g) (get_id h5 n) n\<rparr>, h5))))"

definition set_inputs :: "graph \<Rightarrow> int list \<Rightarrow> error + graph" where
  "set_inputs g new_inputs =
     (if list_all (\<lambda>i. i \<in> set (get_node_ids g)) new_inputs
      then Inr (g\<lparr>inputs := new_inputs\<rparr>)
      else Inl (ValueError ''A given ID doesn't exist''))"

text \<open>
  \<open>remove_id\<close>, as the source has it: both branches at the end call \<open>set_inputs\<close>,
  the second with the filtered output list.
\<close>

definition remove_id :: "graph \<Rightarrow> int \<Rightarrow> heap \<Rightarrow> error + (graph \<times> heap)" where
  "remove_id g identity h =
     (if identity \<in> set (get_node_ids g) then
        bind (get_node_by_id g identity) (\<lambda>n.
        let pl = dict_keys (dict_at h (get_parents h n));
            cl = dict_keys (dict_at h (get_children h n))
        in bind (for_each pl (\<lambda>parent. remove_parallel_edges g parent identity) h) (\<lambda>h1.
           bind (for_each cl (\<lambda>child. remove_parallel_edges g identity child) h1) (\<lambda>h2.
           let g1 = g\<lparr>nodes := dict_del (nodes g) identity\<rparr>;
               ins = get_input_ids g1;
               outs = get_output_ids g1
           in if identity \<in> set ins then
                bind (set_inputs g1 (filter (\<lambda>node. node \<noteq> identity) ins)) (\<lambda>g2. Inr (g2, h2))
              else if identity \<in> set outs then
                bind (set_inputs g1 (filter (\<lambda>node. node \<noteq> identity) outs)) (\<lambda>g2. Inr (g2, h2))
              else Inr (g1, h2))))
      else Inr (g, h))"

text \<open>
  \<open>merge_nodes\<close>: for every key of the second node's children (parents) dictionary,
  one \<open>add_child_id\<close> (\<open>add_parent_id\<close>) on the first node and one on the neighbour;
  then the second node's key is deleted from \<open>self.nodes\<close>.
\<close>

definition merge_nodes :: "graph \<Rightarrow> int \<Rightarrow> int \<Rightarrow> string option \<Rightarrow> heap
    \<Rightarrow> error + (int \<times> graph \<times> heap)" where
  "merge_nodes g node_id1 node_id2 lbl h =
     (if dict_not_in node_id1 (nodes g) \<or> dict_not_in node_id2 (nodes g)
      then Inl (ValueError ''Node IDs must be valid nodes in the graph'')
      else
        bind (get_node_by_id g node_id1) (\<lambda>n1.
        bind (get_node_by_id g node_id2) (\<lambda>n2.
        let h1 = (case lbl of None \<Rightarrow> set_label n1 (get_label h n1) h
                  | Some l \<Rightarrow> set_label n1 l h)
        in bind (for_keys (get_children h1 n2) (\<lambda>child_id h'.
                   bind (get_node_by_id g child_id) (\<lambda>c.
                     Inr (add_parent_id c node_id1 (add_child_id n1 child_id h')))) h1) (\<lambda>h2.
           bind (for_keys (get_parents h2 n2) (\<lambda>parent_id h'.
                   bind (get_node_by_id g parent_id) (\<lambda>p.
                     Inr (add_child_id p node_id1 (add_parent_id n1 parent_id h')))) h2) (\<lambda>h3.
             Inr (node_id1, g\<lparr>nodes := dict_del (nodes g) node_id2\<rparr>, h3))))))"

subsection \<open>class OpenDigraph: shortest paths\<close>

text \<open>A distance is an integer or \<open>float('inf')\<close>.\<close>

datatype distance = Fin int | PosInf

fun dist_less :: "distance \<Rightarrow> distance \<Rightarrow> bool" where
  "dist_less (Fin a) (Fin b) = (a < b)"
| "dist_less (Fin a) PosInf = True"
| "dist_less PosInf d = False"

fun dist_succ :: "distance \<Rightarrow> distance" where
  "dist_succ (Fin a) = Fin (a + 1)"
| "dist_succ PosInf = PosInf"

text \<open>\<open>min_distance\<close> returns a node of \<open>q\<close> or \<open>None\<close>.\<close>

definition min_distance :: "(int, distance) dict \<Rightarrow> int list \<Rightarrow> error + int option" where
  "min_distance dist q =
     bind (for_each q (\<lambda>node (min_dist, min_node).
             bind (dict_get dist node) (\<lambda>d.
               if dist_less d min_dist then Inr (d, Some node) else Inr (min_dist, min_node)))
           (PosInf, None))
       (\<lambda>(min_dist, min_node). Inr min_node)"

text \<open>
  The neighbours of \<open>u\<close>, as the dictionary object the loop then iterates. With
  \<open>direction\<close> \<open>None\<close> it is the children dictionary of \<open>u\<close> itself, and every entry of
  the parents dictionary is stored into it. \<open>self.nodes[None]\<close> raises \<open>KeyError\<close>.
\<close>

definition neighbors_of :: "graph \<Rightarrow> int option \<Rightarrow> int option \<Rightarrow> heap \<Rightarrow> error + (nat \<times> heap)" where
  "neighbors_of g direction u h =
     (let node_u = (case u of None \<Rightarrow> Inl KeyError | Some k \<Rightarrow> get_node_by_id g k)
      in case direction of
           None \<Rightarrow>
             bind node_u (\<lambda>n.
               let neighbors = get_children h n; ps = get_parents h n
               in bind (for_keys ps (\<lambda>p h'.
                          bind (dict_get (dict_at h' ps) p) (\<lambda>m.
                            Inr (put_dict neighbors (dict_set (dict_at h' neighbors) p m) h'))) h)
                    (\<lambda>h1. Inr (neighbors, h1)))
         | Some d \<Rightarrow>
             if d = - 1 then bind node_u (\<lambda>n. Inr (get_parents h n, h))
             else if d = 1 then bind node_u (\<lambda>n. Inr (get_children h n, h))
             else Inl (ValueError (''La direction doit '' @ [CHR 0xC3, CHR 0xAA]
                                     @ ''tre None, -1 ou 1'')))"

text \<open>The body of \<open>for v in neighbors\<close>.\<close>

definition relax :: "int \<Rightarrow> int \<Rightarrow> int list \<times> (int, distance) dict \<times> (int, int) dict
    \<Rightarrow> error + (int list \<times> (int, distance) dict \<times> (int, int) dict)" where
  "relax u v s =
     (case s of (q, dist, prev) \<Rightarrow>
        let (q1, dist1) = (if dict_not_in v dist then (q @ [v], dict_set dist v PosInf)
                           else (q, dist))
        in bind (dict_get dist1 v) (\<lambda>dv.
           bind (dict_get dist1 u) (\<lambda>du.
             if dist_less (dist_succ du) dv
             then Inr (q1, dict_set dist1 v (dist_succ du), dict_set prev v u)
             else Inr (q1, dist1, prev))))"

text \<open>One round of the \<open>while\<close> loop after the test \<open>u == tgt\<close>.\<close>

definition dijkstra_visit :: "graph \<Rightarrow> int option \<Rightarrow> int option \<Rightarrow> int list
    \<Rightarrow> (int, distance) dict \<Rightarrow> (int, int) dict \<Rightarrow> heap
    \<Rightarrow> error + (int list \<times> (int, distance) dict \<times> (int, int) dict \<times> heap)" where
  "dijkstra_visit g direction u q dist prev h =
     bind (neighbors_of g direction u h) (\<lambda>(neighbors, h1).
       case u of
         None \<Rightarrow> Inl KeyError
       | Some k \<Rightarrow>
           bind (for_each (dict_keys (dict_at h1 neighbors)) (relax k) (q, dist, prev))
             (\<lambda>(q1, dist1, prev1).
                if k \<in> set q1 then Inr (remove1 k q1, dist1, prev1, h1)
                else Inl (ValueError ''list.remove(x): x not in list'')))"

partial_function (option) dijkstra_loop :: "graph \<Rightarrow> int option \<Rightarrow> int option \<Rightarrow> int list
    \<Rightarrow> (int, distance) dict \<Rightarrow> (int, int) dict \<Rightarrow> heap
    \<Rightarrow> (error + ((int, distance) dict \<times> (int, int) dict \<times> heap)) option" where
  "dijkstra_loop g direction tgt q dist prev h =
     (if length q > 0 then
        (case min_distance dist q of
           Inl e \<Rightarrow> Some (Inl e)
         | Inr u \<Rightarrow>
             if u = tgt then Some (Inr (dist, prev, h))
             else (case dijkstra_visit g direction u q dist prev h of
                     Inl e \<Rightarrow> Some (Inl e)
                   | Inr (q1, dist1, prev1, h1) \<Rightarrow>
                       dijkstra_loop g direction tgt q1 dist1 prev1 h1))
      else Some (Inr (dist, prev, h)))"

declare dijkstra_loop.simps [code]

definition dijkstra :: "graph \<Rightarrow> int \<Rightarrow> int option \<Rightarrow> int option \<Rightarrow> heap
    \<Rightarrow> (error + ((int, distance) dict \<times> (int, int) dict \<times> heap)) option" where
  "dijkstra g src direction tgt h = dijkstra_loop g direction tgt [src] [(src, Fin 0)] [] h"

text \<open>\<open>while v != u: v = prev[v]; nodes.insert(0, v)\<close>\<close>

partial_function (option) walk_prev :: "(int, int) dict \<Rightarrow> int \<Rightarrow> int \<Rightarrow> int list
    \<Rightarrow> (error + int list) option" where
  "walk_prev prev u v path =
     (if v \<noteq> u then
        (case dict_get prev v of
           Inl e \<Rightarrow> Some (Inl e)
         | Inr v' \<Rightarrow> walk_prev prev u v' (v' # path))
      else Some (Inr path))"

declare walk_prev.simps [code]

definition shortest_path :: "graph \<Rightarrow> int \<Rightarrow> int \<Rightarrow> heap \<Rightarrow> (error + (int list \<times> heap)) option" where
  "shortest_path g u v h =
     (case dijkstra g u None (Some v) h of
        None \<Rightarrow> None
      | Some (Inl e) \<Rightarrow> Some (Inl e)
      | Some (Inr (dist, prev, h1)) \<Rightarrow>
          (case walk_prev prev u v [v] of
             None \<Rightarrow> None
           | Some (Inl e) \<Rightarrow> Some (Inl e)
           | Some (Inr path) \<Rightarrow> Some (Inr (path, h1))))"

subsection \<open>class OpenDigraph: levelled topological sort\<close>

text \<open>
  A Python set is kept as the list of its elements, without repetition, in the order in
  which they were added. That list is the content of the set, not the order of iteration.
\<close>

definition set_add :: "'a \<Rightarrow> 'a list \<Rightarrow> 'a list" where
  "set_add x xs = (if x \<in> set xs then xs else xs @ [x])"

definition set_of_list :: "'a list \<Rightarrow> 'a list" where
  "set_of_list xs = fold set_add xs []"

text \<open>
  \<open>for x in s\<close> over a set: the language leaves the order to the implementation (CPython
  follows its hash table, not the order of insertion). The order is therefore a parameter
  \<open>iter_order\<close> of the model, a function from the content of the set to the sequence the
  loop visits. A set with at most one element has one order only.
\<close>

definition set_items :: "('a list \<Rightarrow> 'a list) \<Rightarrow> 'a list \<Rightarrow> 'a list" where
  "set_items iter_order xs = (if length xs \<le> 1 then xs else iter_order xs)"

text \<open>
  The \<open>for node_id in co_leaves\<close> loop of one round: it returns \<open>current_set\<close> and
  \<open>new_co_leaves\<close>. A child is tested against \<open>current_set\<close> as built so far, which
  already holds \<open>node_id\<close>.
\<close>

definition co_leaves_round :: "(int list \<Rightarrow> int list) \<Rightarrow> graph \<Rightarrow> heap \<Rightarrow> int list
    \<Rightarrow> error + (int list \<times> int list)" where
  "co_leaves_round iter_order g h co_leaves =
     for_each (set_items iter_order co_leaves) (\<lambda>node_id (current_set, new_co_leaves).
         let current_set1 = set_add node_id current_set
         in bind (get_node_by_id g node_id) (\<lambda>n.
            bind (for_each (dict_keys (dict_at h (get_children h n))) (\<lambda>child_id ncl.
                    bind (get_node_by_id g child_id) (\<lambda>c.
                      if list_all (\<lambda>parent_id. parent_id \<notin> set current_set1)
                           (dict_keys (dict_at h (get_parents h c)))
                      then Inr (set_add child_id ncl) else Inr ncl)) new_co_leaves)
              (\<lambda>ncl. Inr (current_set1, ncl))))
       ([], [])"

partial_function (option) topological_loop :: "(int list \<Rightarrow> int list) \<Rightarrow> graph \<Rightarrow> heap
    \<Rightarrow> int list list \<Rightarrow> int list \<Rightarrow> (error + int list list) option" where
  "topological_loop iter_order g h topological_sequence co_leaves =
     (if co_leaves \<noteq> [] then
        (case co_leaves_round iter_order g h co_leaves of
           Inl e \<Rightarrow> Some (Inl e)
         | Inr (current_set, new_co_leaves) \<Rightarrow>
             if new_co_leaves = [] \<and> length current_set < length (get_node_ids g)
             then Some (Inl (ValueError ''Graph is cyclic''))
             else topological_loop iter_order g h (topological_sequence @ [current_set])
                    new_co_leaves)
      else Some (Inr topological_sequence))"

declare topological_loop.simps [code]

text \<open>The levels of the result are sets, given by their contents.\<close>

definition topological_sort :: "(int list \<Rightarrow> int list) \<Rightarrow> graph \<Rightarrow> heap
    \<Rightarrow> (error + int list list) option" where
  "topological_sort iter_order g h =
     topological_loop iter_order g h [] (set_of_list (get_input_ids g))"

text \<open>
  \<open>graph_depth\<close>: the sort never returns a string, so the result is the length of the
  sequence; an exception of the sort passes through.
\<close>

definition graph_depth :: "(int list \<Rightarrow> int list) \<Rightarrow> graph \<Rightarrow> heap \<Rightarrow> (error + nat) option" where
  "graph_depth iter_order g h =
     (case topological_sort iter_order g h of
        None \<Rightarrow> None
      | Some (Inl e) \<Rightarrow> Some (Inl e)
      | Some (Inr topological_sequence) \<Rightarrow> Some (Inr (length topological_sequence)))"

subsection \<open>class BoolCirc: rewrite rules and evaluation\<close>

text \<open>
  The rules test labels against the characters U+223C (tilde operator) and U+02C6
  (modifier circumflex), not against the ASCII \<open>~\<close> and \<open>^\<close>.
\<close>

definition tilde_operator :: string where
  "tilde_operator = [CHR 0xE2, CHR 0x88, CHR 0xBC]"

definition modifier_circumflex :: string where
  "modifier_circumflex = [CHR 0xCB, CHR 0x86]"

text \<open>\<open>[self.g.nodes[n].get_label() for n in node.get_parents()]\<close>\<close>

definition parent_labels :: "graph \<Rightarrow> heap \<Rightarrow> nat \<Rightarrow> error + string list" where
  "parent_labels g h node =
     map_err (\<lambda>n. bind (dict_get (nodes g) n) (\<lambda>m. Inr (get_label h m)))
       (dict_keys (dict_at h (get_parents h node)))"

text \<open>\<open>for pred in node.get_parents(): self.g.remove_edge(pred, node_id)\<close>\<close>

definition remove_parent_edges :: "graph \<Rightarrow> nat \<Rightarrow> int \<Rightarrow> heap \<Rightarrow> error + heap" where
  "remove_parent_edges g node node_id h =
     for_keys (get_parents h node) (\<lambda>pred. remove_edge g pred node_id) h"

text \<open>\<open>xs[0]\<close> raises \<open>IndexError\<close> on the empty list.\<close>

definition first_item :: "'a list \<Rightarrow> error + 'a" where
  "first_item xs = (case xs of [] \<Rightarrow> Inl IndexError | x # rest \<Rightarrow> Inr x)"

text \<open>In the rules \<open>node.get_parents()[0]\<close> looks the key 0 up in the parents dictionary.\<close>

definition rule_not :: "graph \<Rightarrow> heap \<Rightarrow> error + heap" where
  "rule_not g h =
     for_each (get_node_ids g) (\<lambda>node_id h'.
       bind (dict_get (nodes g) node_id) (\<lambda>node.
         if get_label h' node = tilde_operator then
           bind (dict_get (dict_at h' (get_parents h' node)) 0) (\<lambda>pred.
           bind (dict_get (nodes g) pred) (\<lambda>pn.
             let pred_label = get_label h' pn;
                 h1 = (if pred_label = ''0'' then set_label node ''1'' h'
                       else if pred_label = ''1'' then set_label node ''0'' h'
                       else h')
             in remove_edge g pred node_id h1))
         else Inr h')) h"

definition rule_and :: "graph \<Rightarrow> heap \<Rightarrow> error + heap" where
  "rule_and g h =
     for_each (get_node_ids g) (\<lambda>node_id h'.
       bind (dict_get (nodes g) node_id) (\<lambda>node.
         if get_label h' node = ''&'' then
           bind (parent_labels g h' node) (\<lambda>ins.
           bind (if ''0'' \<in> set ins then Inr (set_label node ''0'' h')
                 else if ''1'' \<in> set ins then
                   bind (first_item (remove1 ''1'' ins)) (\<lambda>l. Inr (set_label node l h'))
                 else Inr h') (\<lambda>h1.
             remove_parent_edges g node node_id h1))
         else Inr h')) h"

definition rule_or :: "graph \<Rightarrow> heap \<Rightarrow> error + heap" where
  "rule_or g h =
     for_each (get_node_ids g) (\<lambda>node_id h'.
       bind (dict_get (nodes g) node_id) (\<lambda>node.
         if get_label h' node = ''|'' then
           bind (parent_labels g h' node) (\<lambda>ins.
           bind (if ''1'' \<in> set ins then Inr (set_label node ''1'' h')
                 else if ''0'' \<in> set ins then
                   bind (first_item (remove1 ''0'' ins)) (\<lambda>l. Inr (set_label node l h'))
                 else Inr h') (\<lambda>h1.
             remove_parent_edges g node node_id h1))
         else Inr h')) h"

definition rule_xor :: "graph \<Rightarrow> heap \<Rightarrow> error + heap" where
  "rule_xor g h =
     for_each (get_node_ids g) (\<lambda>node_id h'.
       bind (dict_get (nodes g) node_id) (\<lambda>node.
         if get_label h' node = modifier_circumflex then
           bind (parent_labels g h' node) (\<lambda>ins.
           bind (if ''0'' \<in> set ins then
                   bind (first_item (remove1 ''0'' ins)) (\<lambda>l. Inr (set_label node l h'))
                 else if ''1'' \<in> set ins then
                   bind (first_item (remove1 ''1'' ins)) (\<lambda>l.
                     Inr (set_label node (tilde_operator @ l) h'))
                 else Inr h') (\<lambda>h1.
             remove_parent_edges g node node_id h1))
         else Inr h')) h"

definition rule_copy :: "graph \<Rightarrow> heap \<Rightarrow> error + heap" where
  "rule_copy g h =
     for_each (get_node_ids g) (\<lambda>node_id h'.
       bind (dict_get (nodes g) node_id) (\<lambda>node.
         if indegree h' node = 1 \<and> outdegree h' node = 0 then
           bind (dict_get (dict_at h' (get_parents h' node)) 0) (\<lambda>pred.
           bind (dict_get (nodes g) pred) (\<lambda>pn.
             remove_edge g pred node_id (set_label node (get_label h' pn) h')))
         else Inr h')) h"

text \<open>
  \<open>rule_erase\<close> and \<open>rule_involution\<close> also change the node dictionary; they iterate
  over the ids the graph had at the start.
\<close>

definition rule_erase :: "graph \<Rightarrow> heap \<Rightarrow> error + (graph \<times> heap)" where
  "rule_erase g h =
     for_each (get_node_ids g) (\<lambda>node_id (g', h').
       bind (dict_get (nodes g') node_id) (\<lambda>node.
         if indegree h' node = 1 \<and> outdegree h' node = 1 then
           bind (dict_get (dict_at h' (get_parents h' node)) 0) (\<lambda>pred.
           bind (dict_get (dict_at h' (get_parents h' node)) 0) (\<lambda>pred2.
           bind (add_edge g' pred pred2 h') (\<lambda>h1.
             remove_id g' node_id h1)))
         else Inr (g', h'))) (g, h)"

fun even_items :: "'a list \<Rightarrow> 'a list" where
  "even_items [] = []"
| "even_items [x] = [x]"
| "even_items (x # y # zs) = x # even_items zs"

fun odd_items :: "'a list \<Rightarrow> 'a list" where
  "odd_items [] = []"
| "odd_items [x] = []"
| "odd_items (x # y # zs) = y # odd_items zs"

definition list_get :: "'a list \<Rightarrow> nat \<Rightarrow> error + 'a" where
  "list_get xs i = (if i < length xs then Inr (xs ! i) else Inl IndexError)"

definition last_item :: "'a list \<Rightarrow> error + 'a" where
  "last_item xs = (if xs = [] then Inl IndexError else Inr (last xs))"

definition rule_involution :: "graph \<Rightarrow> heap \<Rightarrow> error + (graph \<times> heap)" where
  "rule_involution g h =
     for_each (get_node_ids g) (\<lambda>node_id (g', h').
       bind (dict_get (nodes g') node_id) (\<lambda>node.
         if get_label h' node = modifier_circumflex \<and> indegree h' node > 2 then
           bind (map_err (dict_get (nodes g')) (dict_keys (dict_at h' (get_parents h' node))))
             (\<lambda>ins.
               let even_inputs = even_items ins; odd_inputs = odd_items ins
               in for_each [0 ..< length even_inputs] (\<lambda>i (g1, h1).
                    bind (add_node g1 modifier_circumflex None None h1) (\<lambda>(new, g2, h2).
                    bind (list_get even_inputs i) (\<lambda>e.
                    bind (add_edge g2 (get_id h2 e) (int (length (nodes g2)) - 1) h2) (\<lambda>h3.
                    bind (list_get odd_inputs i) (\<lambda>od.
                    bind (add_edge g2 (get_id h3 od) (int (length (nodes g2)) - 1) h3) (\<lambda>h4.
                      if i = length even_inputs - 1 \<and> length odd_inputs > length even_inputs
                      then bind (last_item odd_inputs) (\<lambda>lo.
                             bind (add_edge g2 (get_id h4 lo) (int (length (nodes g2)) - 1) h4)
                               (\<lambda>h5. Inr (g2, h5)))
                      else Inr (g2, h4)))))))
                    (g', h'))
         else Inr (g', h'))) (g, h)"

text \<open>
  One pass of \<open>evaluate\<close> over the ids the graph has at the start of the pass; a node
  in \<open>output_nodes\<close> is skipped. The result says whether a rule was called.
\<close>

definition evaluate_pass :: "int list \<Rightarrow> graph \<Rightarrow> heap \<Rightarrow> error + (bool \<times> graph \<times> heap)" where
  "evaluate_pass output_nodes g h =
     for_each (get_node_ids g) (\<lambda>node_id (transformed, g', h').
       bind (dict_get (nodes g') node_id) (\<lambda>node.
         if node_id \<notin> set output_nodes then
           if get_label h' node = tilde_operator then
             bind (rule_not g' h') (\<lambda>h1. Inr (True, g', h1))
           else if get_label h' node = ''&'' then
             bind (rule_and g' h') (\<lambda>h1. Inr (True, g', h1))
           else if get_label h' node = ''|'' then
             bind (rule_or g' h') (\<lambda>h1. Inr (True, g', h1))
           else if get_label h' node = modifier_circumflex then
             bind (rule_xor g' h') (\<lambda>h1. Inr (True, g', h1))
           else if indegree h' node = 1 \<and> outdegree h' node = 0 then
             bind (rule_copy g' h') (\<lambda>h1. Inr (True, g', h1))
           else if indegree h' node = 1 \<and> outdegree h' node = 1 then
             bind (rule_erase g' h') (\<lambda>(g1, h1). Inr (True, g1, h1))
           else if get_label h' node = modifier_circumflex \<and> indegree h' node > 2 then
             bind (rule_involution g' h') (\<lambda>(g1, h1). Inr (True, g1, h1))
           else Inr (transformed, g', h')
         else Inr (transformed, g', h'))) (False, g, h)"

partial_function (option) evaluate_loop :: "int list \<Rightarrow> graph \<Rightarrow> heap
    \<Rightarrow> (error + (graph \<times> heap)) option" where
  "evaluate_loop output_nodes g h =
     (case evaluate_pass output_nodes g h of
        Inl e \<Rightarrow> Some (Inl e)
      | Inr (transformed, g', h') \<Rightarrow>
          if transformed then evaluate_loop output_nodes g' h' else Some (Inr (g', h')))"

declare evaluate_loop.simps [code]

text \<open>\<open>evaluate\<close> on the graph \<open>self.g\<close> of the circuit.\<close>

definition evaluate :: "graph \<Rightarrow> heap \<Rightarrow> (error + (graph \<times> heap)) option" where
  "evaluate g h =
     (case for_each (get_node_ids g) (\<lambda>node_id output_nodes.
             bind (dict_get (nodes g) node_id) (\<lambda>n.
               if outdegree h n = 0 then Inr (set_add node_id output_nodes)
               else Inr output_nodes)) [] of
        Inl e \<Rightarrow> Some (Inl e)
      | Inr output_nodes \<Rightarrow> evaluate_loop output_nodes g h)"

section \<open>Observations and example graphs\<close>

definition children_of :: "graph \<Rightarrow> heap \<Rightarrow> int \<Rightarrow> error + (int, int) dict" where
  "children_of g h k = bind (get_node_by_id g k) (\<lambda>n. Inr (dict_at h (get_children h n)))"

definition parents_of :: "graph \<Rightarrow> heap \<Rightarrow> int \<Rightarrow> error + (int, int) dict" where
  "parents_of g h k = bind (get_node_by_id g k) (\<lambda>n. Inr (dict_at h (get_parents h n)))"

definition label_of :: "graph \<Rightarrow> heap \<Rightarrow> int \<Rightarrow> error + string" where
  "label_of g h k = bind (get_node_by_id g k) (\<lambda>n. Inr (get_label h n))"

text \<open>
  \<open>OpenDigraph(ins, outs, [Node(i, l, {...}, {...}), ...])\<close>: every node is a new object
  with two new dictionaries.
\<close>

fun alloc_nodes :: "(int \<times> string \<times> (int, int) dict \<times> (int, int) dict) list \<Rightarrow> heap
    \<Rightarrow> nat list \<times> heap" where
  "alloc_nodes [] h = ([], h)"
| "alloc_nodes ((i, l, ps, cs) # rest) h =
     (let (pa, h1) = new_dict ps h;
          (ca, h2) = new_dict cs h1;
          (n, h3) = new_node \<lparr>nid = i, label = l, parents = pa, children = ca\<rparr> h2;
          (ns, h4) = alloc_nodes rest h3
      in (n # ns, h4))"

definition build :: "int list \<Rightarrow> int list
    \<Rightarrow> (int \<times> string \<times> (int, int) dict \<times> (int, int) dict) list \<Rightarrow> graph \<times> heap" where
  "build ins outs specs =
     (let (ns, h) = alloc_nodes specs \<lparr>dicts = [], nodeobjs = []\<rparr>
      in (open_digraph_init (Some ins) (Some outs) (Some ns) h, h))"

definition ids_example :: graph where
  "ids_example = \<lparr>inputs = [0], outputs = [7], nodes = [(0, 0), (3, 1), (7, 2)]\<rparr>"

text \<open>Two nodes and one edge from 0 to 1.\<close>

definition edge_example :: "graph \<times> heap" where
  "edge_example = build [] [] [(0, ''a'', [], [(1, 1)]), (1, ''b'', [(0, 1)], [])]"

text \<open>Two nodes with the edges 0 to 1 and 1 to 0.\<close>

definition two_way_example :: "graph \<times> heap" where
  "two_way_example =
     build [] [] [(0, ''a'', [(1, 1)], [(1, 1)]), (1, ''b'', [(0, 1)], [(0, 1)])]"

text \<open>The input node 0, the inner node 1, the output node 2, in a chain.\<close>

definition io_example :: "graph \<times> heap" where
  "io_example =
     build [0] [2] [(0, [], [], [(1, 1)]), (1, ''&'', [(0, 1)], [(2, 1)]), (2, [], [(1, 1)], [])]"

text \<open>Node 0 with one edge to node 2, node 1 with two parallel edges to node 2.\<close>

definition merge_example :: "graph \<times> heap" where
  "merge_example =
     build [] [] [(0, ''a'', [], [(2, 1)]), (1, ''b'', [], [(2, 2)]), (2, ''c'', [(0, 1), (1, 2)], [])]"

text \<open>Two nodes and no edge.\<close>

definition copy_example :: "graph \<times> heap" where
  "copy_example = build [] [] [(0, ''a'', [], []), (1, ''b'', [], [])]"

text \<open>The chain with the edges 0 to 1, 1 to 2 and 2 to 3.\<close>

definition chain_example :: "graph \<times> heap" where
  "chain_example =
     build [] [] [(0, ''a'', [], [(1, 1)]), (1, ''b'', [(0, 1)], [(2, 1)]),
                  (2, ''c'', [(1, 1)], [(3, 1)]), (3, ''d'', [(2, 1)], [])]"

text \<open>One node with an edge to itself, registered as input and as output.\<close>

definition loop_example :: "graph \<times> heap" where
  "loop_example = build [0] [0] [(0, ''&'', [(0, 1)], [(0, 1)])]"

text \<open>The circuit with A = 0 labelled 1, B = 1 labelled 0, C = 2 labelled \<open>&\<close>.\<close>

definition and_circuit :: "graph \<times> heap" where
  "and_circuit =
     build [] [] [(0, ''1'', [], [(2, 1)]), (1, ''0'', [], [(2, 1)]),
                  (2, ''&'', [(0, 1), (1, 1)], [])]"

section \<open>Fresh ids\<close>

lemma new_id_nonempty:
  assumes "set (inputs g) \<union> set (outputs g) \<union> set (get_node_ids g) \<noteq> {}"
  shows "new_id g = Max (set (inputs g) \<union> set (outputs g) \<union> set (get_node_ids g)) + 1"
  using assms by (simp add: new_id_def get_input_ids_def get_output_ids_def Let_def Un_assoc)

text \<open>
  C9: \<open>new_id\<close> returns the smallest integer strictly greater than every id in use in the
  input list, the output list and the keys of the node dictionary; with no id in use
  (the empty graph) it returns 0.
\<close>

theorem new_id_smallest_above_used:
  "(set (inputs g) \<union> set (outputs g) \<union> set (get_node_ids g) \<noteq> {} \<longrightarrow>
      (\<forall>i \<in> set (inputs g) \<union> set (outputs g) \<union> set (get_node_ids g). i < new_id g) \<and>
      (\<forall>m. (\<forall>i \<in> set (inputs g) \<union> set (outputs g) \<union> set (get_node_ids g). i < m)
            \<longrightarrow> new_id g \<le> m)) \<and>
   (inputs g = [] \<and> outputs g = [] \<and> nodes g = [] \<longrightarrow> new_id g = 0)"
proof (intro conjI impI)
  let ?U = "set (inputs g) \<union> set (outputs g) \<union> set (get_node_ids g)"
  assume ne: "?U \<noteq> {}"
  have fin: "finite ?U" by simp
  have eq: "new_id g = Max ?U + 1" using ne by (rule new_id_nonempty)
  show "\<forall>i \<in> ?U. i < new_id g"
  proof
    fix i assume "i \<in> ?U"
    then have "i \<le> Max ?U" using fin by (rule Max_ge[rotated])
    then show "i < new_id g" using eq by simp
  qed
  show "\<forall>m. (\<forall>i \<in> ?U. i < m) \<longrightarrow> new_id g \<le> m"
  proof (intro allI impI)
    fix m assume above: "\<forall>i \<in> ?U. i < m"
    have "Max ?U \<in> ?U" using fin ne by (rule Max_in)
    then have "Max ?U < m" using above by blast
    then show "new_id g \<le> m" using eq by simp
  qed
next
  assume "inputs g = [] \<and> outputs g = [] \<and> nodes g = []"
  then show "new_id g = 0"
    by (simp add: new_id_def get_input_ids_def get_output_ids_def get_node_ids_def
        dict_keys_def)
qed

theorem new_id_smallest_above_used_witness:
  "set (inputs ids_example) \<union> set (outputs ids_example) \<union> set (get_node_ids ids_example) \<noteq> {}
   \<and> new_id ids_example = 8
   \<and> new_id \<lparr>inputs = [], outputs = [], nodes = []\<rparr> = 0"
proof -
  have ne: "set (inputs ids_example) \<union> set (outputs ids_example)
      \<union> set (get_node_ids ids_example) \<noteq> {}"
    by (simp add: ids_example_def)
  have U: "set (inputs ids_example) \<union> set (outputs ids_example)
      \<union> set (get_node_ids ids_example) = {0, 3, 7}"
    by (auto simp add: ids_example_def get_node_ids_def dict_keys_def)
  from new_id_smallest_above_used[of ids_example] ne U
  have ub: "\<forall>i \<in> {0, 3, 7}. i < new_id ids_example"
    and least: "\<forall>m. (\<forall>i \<in> {0, 3, 7}. i < m) \<longrightarrow> new_id ids_example \<le> m"
    by simp_all
  from least have "new_id ids_example \<le> 8" by simp
  moreover from ub have "7 < new_id ids_example" by simp
  ultimately have v: "new_id ids_example = 8" by simp
  from new_id_smallest_above_used[of "\<lparr>inputs = [], outputs = [], nodes = []\<rparr>"]
  have e: "new_id \<lparr>inputs = [], outputs = [], nodes = []\<rparr> = 0" by simp
  from ne v e show ?thesis by blast
qed

section \<open>Absent ids\<close>

lemma map_of_absent: "k \<notin> set (dict_keys d) \<Longrightarrow> map_of d k = None"
  by (simp add: dict_keys_def map_of_eq_None_iff)

lemma get_nodes_by_ids_present:
  "get_nodes_by_ids g ids = Inr (List.map_filter (map_of (nodes g)) ids)"
proof (induction ids)
  case Nil
  show ?case by (simp add: get_nodes_by_ids_def)
next
  case (Cons k ids)
  show ?case
  proof (cases "map_of (nodes g) k")
    case None
    then have "\<not> dict_in k (nodes g)"
      by (simp add: dict_in_def dict_keys_def map_of_eq_None_iff)
    with None Cons show ?thesis
      by (simp add: get_nodes_by_ids_def)
  next
    case (Some n)
    then have "dict_in k (nodes g)"
      by (auto simp add: dict_in_def dict_keys_def dest: map_of_SomeD intro: rev_image_eqI)
    with Some Cons show ?thesis
      by (simp add: get_nodes_by_ids_def get_node_by_id_def dict_get_def)
  qed
qed

text \<open>
  C8, as the code has it: for an id absent from the node dictionary, \<open>get_node_by_id\<close>
  fails with \<open>KeyError\<close>. \<open>get_nodes_by_ids\<close> does not fail, on any id list: it returns
  the nodes of the ids that are keys of the node dictionary, in the order of the list, and
  skips the absent id, so the result is the one for the id list without it.
\<close>

theorem absent_id_lookup:
  assumes "node_id \<notin> set (get_node_ids g)"
  shows "get_node_by_id g node_id = Inl KeyError \<and>
         get_nodes_by_ids g ids = Inr (List.map_filter (map_of (nodes g)) ids) \<and>
         get_nodes_by_ids g (xs @ node_id # ys)
           = Inr (List.map_filter (map_of (nodes g)) (xs @ ys)) \<and>
         get_nodes_by_ids g (xs @ node_id # ys) = get_nodes_by_ids g (xs @ ys)"
proof (intro conjI)
  from assms have none: "map_of (nodes g) node_id = None"
    unfolding get_node_ids_def by (rule map_of_absent)
  then show "get_node_by_id g node_id = Inl KeyError"
    by (simp add: get_node_by_id_def dict_get_def)
  show "get_nodes_by_ids g ids = Inr (List.map_filter (map_of (nodes g)) ids)"
    by (rule get_nodes_by_ids_present)
  from assms have "\<not> dict_in node_id (nodes g)"
    by (simp add: dict_in_def get_node_ids_def)
  then show skip: "get_nodes_by_ids g (xs @ node_id # ys) = get_nodes_by_ids g (xs @ ys)"
    by (simp add: get_nodes_by_ids_def)
  show "get_nodes_by_ids g (xs @ node_id # ys)
      = Inr (List.map_filter (map_of (nodes g)) (xs @ ys))"
    unfolding skip by (rule get_nodes_by_ids_present)
qed

theorem absent_id_lookup_witness:
  "5 \<notin> set (get_node_ids ids_example) \<and>
   get_node_by_id ids_example 5 = Inl KeyError \<and>
   get_nodes_by_ids ids_example [3, 5, 7] = Inr [1, 2]"
proof -
  have a: "5 \<notin> set (get_node_ids ids_example)"
    by (simp add: ids_example_def get_node_ids_def dict_keys_def)
  have m: "List.map_filter (map_of (nodes ids_example)) ([3] @ [7]) = [1, 2]"
    by (simp add: ids_example_def)
  from absent_id_lookup[OF a, of "[]" "[3]" "[7]"]
  have k: "get_node_by_id ids_example 5 = Inl KeyError"
    and r: "get_nodes_by_ids ids_example ([3] @ 5 # [7])
      = Inr (List.map_filter (map_of (nodes ids_example)) ([3] @ [7]))"
    by blast+
  from r have "get_nodes_by_ids ids_example [3, 5, 7] = Inr [1, 2]"
    unfolding m by simp
  with a k show ?thesis by blast
qed

theorem get_nodes_by_ids_skips_absent_id:
  "5 \<notin> set (get_node_ids ids_example) \<and> get_nodes_by_ids ids_example [5] = Inr []"
  by (simp add: get_nodes_by_ids_def ids_example_def dict_in_def dict_keys_def
      get_node_ids_def)

section \<open>Edges, nodes and copies on the example graphs\<close>

text \<open>
  C3: on the graph with the single edge from 0 to 1, \<open>remove_edge 0 1\<close> returns with the
  store unchanged: node 0 still has the child 1 and node 1 the parent 0. On the graph that
  also has the edge from 1 to 0, the call removes that edge, not the one from 0 to 1.
\<close>

theorem remove_edge_leaves_edge:
  "(case edge_example of (g, h) \<Rightarrow>
      children_of g h 0 = Inr [(1, 1)] \<and> parents_of g h 1 = Inr [(0, 1)] \<and>
      remove_edge g 0 1 h = Inr h) \<and>
   (case two_way_example of (g, h) \<Rightarrow>
      bind (remove_edge g 0 1 h) (\<lambda>h'. Inr (children_of g h' 0, parents_of g h' 1,
          children_of g h' 1, parents_of g h' 0))
        = Inr (Inr [(1, 1)], Inr [(0, 1)], Inr [], Inr []))"
  by code_simp

text \<open>
  C4: on the chain with input 0 and output 2, \<open>remove_id 2\<close> leaves the output list as
  it was, \<open>[2]\<close>, and replaces the input list \<open>[0]\<close> by the empty list; \<open>remove_id 0\<close>
  changes the input list only.
\<close>

theorem remove_id_output_overwrites_inputs:
  "(case io_example of (g, h) \<Rightarrow>
      get_input_ids g = [0] \<and> get_output_ids g = [2] \<and>
      bind (remove_id g 2 h) (\<lambda>(g', h'). Inr (get_input_ids g', get_output_ids g', get_node_ids g'))
        = Inr ([], [2], [0, 1]) \<and>
      bind (remove_id g 0 h) (\<lambda>(g', h'). Inr (get_input_ids g', get_output_ids g', get_node_ids g'))
        = Inr ([], [2], [1, 2]))"
  by code_simp

text \<open>
  C5: \<open>merge_nodes 0 1\<close> on the graph where node 0 has one edge to node 2 and node 1
  has two: node 1 leaves the node dictionary, node 0 ends with multiplicity 2 (not 3)
  towards node 2, and the parents dictionary of node 2 still has the key 1.
\<close>

theorem merge_nodes_keeps_references:
  "(case merge_example of (g, h) \<Rightarrow>
      bind (merge_nodes g 0 1 None h) (\<lambda>(r, g', h').
          Inr (r, get_node_ids g', children_of g' h' 0, parents_of g' h' 2))
        = Inr (0, [0, 2], Inr [(2, 2)], Inr [(0, 2), (1, 2)]))"
  by code_simp

text \<open>
  C2: the copy of the two-node graph is equal to the graph, but it holds the same node
  objects: adding the edge from 0 to 1 to the copy gives node 0 of the original graph the
  child 1, and relabelling node 0 of the copy relabels node 0 of the original.
\<close>

theorem copy_shares_node_objects:
  "(case copy_example of (g, h) \<Rightarrow>
      bind (copy g h) (\<lambda>c. Inr (graph_eq h c g)) = Inr True \<and>
      children_of g h 0 = Inr [] \<and> label_of g h 0 = Inr ''a'' \<and>
      bind (copy g h) (\<lambda>c. bind (add_edge c 0 1 h) (\<lambda>h'. children_of g h' 0)) = Inr [(1, 1)] \<and>
      bind (copy g h) (\<lambda>c. bind (get_node_by_id c 0) (\<lambda>n. label_of g (set_label n ''x'' h) 0))
        = Inr ''x'')"
  by code_simp


section \<open>Shortest paths\<close>

lemma min_distance_source: "min_distance [(u, Fin 0)] [u] = Inr (Some u)"
  by (simp add: min_distance_def bind_def dict_get_def)

lemma dijkstra_source_is_target:
  "dijkstra g u direction (Some u) h = Some (Inr ([(u, Fin 0)], [], h))"
  unfolding dijkstra_def
  by (subst dijkstra_loop.simps) (simp add: min_distance_source)

lemma walk_prev_done: "walk_prev prev u u path = Some (Inr path)"
  by (subst walk_prev.simps) simp

text \<open>
  C7: \<open>shortest_path u u\<close> returns the path \<open>[u]\<close> (and leaves the store as it is), for
  every graph and every \<open>u\<close>; on the chain 0, 1, 2, 3 \<open>shortest_path 0 3\<close> returns
  \<open>[0, 1, 2, 3]\<close>, and the distance map of \<open>dijkstra\<close> from 0 gives node 3 the
  distance 3, whether the search stops at 3 or runs to the end.
\<close>

theorem shortest_path_reflexive_and_chain:
  "shortest_path g u u h = Some (Inr ([u], h)) \<and>
   map_option (map_sum id fst) (shortest_path (fst chain_example) 0 3 (snd chain_example))
     = Some (Inr [0, 1, 2, 3]) \<and>
   map_option (map_sum id (\<lambda>(dist, prev, h'). dict_get dist 3))
       (dijkstra (fst chain_example) 0 None None (snd chain_example))
     = Some (Inr (Inr (Fin 3))) \<and>
   map_option (map_sum id (\<lambda>(dist, prev, h'). dict_get dist 3))
       (dijkstra (fst chain_example) 0 None (Some 3) (snd chain_example))
     = Some (Inr (Inr (Fin 3)))"
proof (intro conjI)
  show "shortest_path g u u h = Some (Inr ([u], h))"
    by (simp add: shortest_path_def dijkstra_source_is_target walk_prev_done)
  show "map_option (map_sum id fst) (shortest_path (fst chain_example) 0 3 (snd chain_example))
     = Some (Inr [0, 1, 2, 3])"
    by code_simp
  show "map_option (map_sum id (\<lambda>(dist, prev, h'). dict_get dist 3))
       (dijkstra (fst chain_example) 0 None None (snd chain_example))
     = Some (Inr (Inr (Fin 3)))"
    by code_simp
  show "map_option (map_sum id (\<lambda>(dist, prev, h'). dict_get dist 3))
       (dijkstra (fst chain_example) 0 None (Some 3) (snd chain_example))
     = Some (Inr (Inr (Fin 3)))"
    by code_simp
qed

text \<open>
  C10: on the graph with the single edge from 0 to 1, node 1 has no child. After
  \<open>dijkstra\<close> from 1 with direction \<open>None\<close>, and after \<open>shortest_path 1 0\<close>, the children
  dictionary of node 1 holds the key 0. With direction 1 or -1 the store is unchanged.
\<close>

theorem dijkstra_both_directions_adds_children:
  "children_of (fst edge_example) (snd edge_example) 1 = Inr [] \<and>
   map_option (map_sum id (\<lambda>(dist, prev, h'). children_of (fst edge_example) h' 1))
       (dijkstra (fst edge_example) 1 None None (snd edge_example))
     = Some (Inr (Inr [(0, 1)])) \<and>
   map_option (map_sum id (\<lambda>(path, h'). (path, children_of (fst edge_example) h' 1)))
       (shortest_path (fst edge_example) 1 0 (snd edge_example))
     = Some (Inr ([1, 0], Inr [(0, 1)])) \<and>
   map_option (map_sum id (\<lambda>(dist, prev, h'). h' = snd edge_example))
       (dijkstra (fst edge_example) 1 (Some 1) None (snd edge_example))
     = Some (Inr True) \<and>
   map_option (map_sum id (\<lambda>(dist, prev, h'). h' = snd edge_example))
       (dijkstra (fst edge_example) 1 (Some (- 1)) None (snd edge_example))
     = Some (Inr True)"
  by code_simp

section \<open>Levelled topological sort\<close>

text \<open>
  C1: on the acyclic chain with input 0, inner node 1 and output 2 (longest path: two
  edges) the sort and \<open>graph_depth\<close> raise \<open>ValueError\<close> with the message
  \<open>Graph is cyclic\<close>; on the one-node graph with an edge from the node to itself the
  sort returns one level and the depth is 1. Both hold for every order of iteration over
  sets.
\<close>

theorem topological_sort_rejects_chain:
  "topological_sort iter_order (fst io_example) (snd io_example)
     = Some (Inl (ValueError ''Graph is cyclic'')) \<and>
   graph_depth iter_order (fst io_example) (snd io_example)
     = Some (Inl (ValueError ''Graph is cyclic'')) \<and>
   topological_sort iter_order (fst loop_example) (snd loop_example) = Some (Inr [[0]]) \<and>
   graph_depth iter_order (fst loop_example) (snd loop_example) = Some (Inr 1)"
  by code_simp

section \<open>Evaluation of the AND circuit\<close>

text \<open>
  C6: on the circuit A = 1, B = 0, C = \<open>&\<close> with the edges from A and from B to C,
  \<open>evaluate\<close> terminates and returns the graph and the store as they were, so the label
  of C is still \<open>&\<close>, not 0: \<open>output_nodes\<close> holds the nodes without children, C is
  the only one, and the scan skips it, so no rule is called. \<open>rule_and\<close> itself, called
  on the same circuit, gives C the label 0.
\<close>

theorem evaluate_skips_and_gate:
  "evaluate (fst and_circuit) (snd and_circuit) = Some (Inr and_circuit) \<and>
   map_option (map_sum id (\<lambda>(g', h'). label_of g' h' 2))
       (evaluate (fst and_circuit) (snd and_circuit))
     = Some (Inr (Inr ''&'')) \<and>
   bind (rule_and (fst and_circuit) (snd and_circuit)) (\<lambda>h'. label_of (fst and_circuit) h' 2)
     = Inr ''0''"
  by code_simp

end
